theory Spec2Isabelle
  imports Main
begin

section \<open>Data model of \<open>src/cpSync.ts\<close>\<close>

text \<open>
  \<open>CpSyncOptions\<close>: every field of the interface is optional (\<open>recursive?: boolean\<close>),
  and the \<open>options\<close> argument itself is optional; an absent field or argument is \<open>None\<close>.
\<close>

record CpSyncOptions =
  recursive :: "bool option"
  verbatimSymlinks :: "bool option"
  dereference :: "bool option"

text \<open>
  \<open>NodeJS.ErrnoException\<close>. An error raised by a primitive of the runtime carries
  \<open>errno\<close>, \<open>syscall\<close> and \<open>path\<close>; an error built with \<open>new Error(message)\<close> has none of
  them until the program assigns one.
\<close>

record ErrnoException =
  message :: string
  code :: "string option"
  errno :: "int option"
  syscall :: "string option"
  path :: "string option"

text \<open>The file type that \<open>fs.Stats\<close> reports through its \<open>is...()\<close> methods.\<close>

datatype FileType = S_IFREG | S_IFDIR | S_IFLNK | S_IFIFO | S_IFSOCK | S_IFCHR | S_IFBLK

record Stats =
  st_type :: FileType
  st_size :: nat

definition isFile :: "Stats \<Rightarrow> bool" where
  "isFile st = (st_type st = S_IFREG)"

definition isDirectory :: "Stats \<Rightarrow> bool" where
  "isDirectory st = (st_type st = S_IFDIR)"

definition isSymbolicLink :: "Stats \<Rightarrow> bool" where
  "isSymbolicLink st = (st_type st = S_IFLNK)"

text \<open>The return type of \<open>getSymlinkType\<close>: \<open>'file' | 'dir' | 'junction'\<close>.\<close>

datatype SymlinkType = LinkFile | LinkDir | LinkJunction

text \<open>
  The runtime the module imports (\<open>process\<close>, \<open>is-absolute\<close>, \<open>path\<close>, \<open>fs\<close>,
  \<open>mkdirp-classic\<close> and the byte copier exported by \<open>./copyFileSync.ts\<close>), over a file
  system state \<open>'s\<close>. A read returns its value or the exception it throws; \<open>existsSync\<close>
  never throws. A mutating call returns the exception it throws, if any, together with
  the state it leaves behind.
\<close>

record 's env =
  platform :: string
  isAbsolute :: "string \<Rightarrow> bool"
  path_dirname :: "string \<Rightarrow> string"
  path_resolve :: "string \<Rightarrow> string \<Rightarrow> string"
  path_relative :: "string \<Rightarrow> string \<Rightarrow> string"
  path_join :: "string \<Rightarrow> string \<Rightarrow> string"
  lstatSync :: "string \<Rightarrow> 's \<Rightarrow> ErrnoException + Stats"
  statSync :: "string \<Rightarrow> 's \<Rightarrow> ErrnoException + Stats"
  realpathSync :: "string \<Rightarrow> 's \<Rightarrow> ErrnoException + string"
  existsSync :: "string \<Rightarrow> 's \<Rightarrow> bool"
  readlinkSync :: "string \<Rightarrow> 's \<Rightarrow> ErrnoException + string"
  readdirSync :: "string \<Rightarrow> 's \<Rightarrow> ErrnoException + string list"
  mkdirpSync :: "string \<Rightarrow> 's \<Rightarrow> ErrnoException option \<times> 's"
  unlinkSync :: "string \<Rightarrow> 's \<Rightarrow> ErrnoException option \<times> 's"
  symlinkSync :: "string \<Rightarrow> string \<Rightarrow> SymlinkType \<Rightarrow> 's \<Rightarrow> ErrnoException option \<times> 's"
  copyFileSync :: "string \<Rightarrow> string \<Rightarrow> 's \<Rightarrow> ErrnoException option \<times> 's"

text \<open>The outcome of a \<open>void\<close> function: the exception thrown or normal return, and the state.\<close>

type_synonym 's outcome = "(ErrnoException + unit) \<times> 's"

definition completion :: "ErrnoException option \<times> 's \<Rightarrow> 's outcome" where
  "completion r = (case r of (None, s) \<Rightarrow> (Inr (), s) | (Some e, s) \<Rightarrow> (Inl e, s))"

section \<open>\<open>getSymlinkType\<close>\<close>

text \<open>
  Lines 18-34. The \<open>try\<close> block is the \<open>case\<close> on \<open>statSync\<close>, the only call in it that
  can throw; the \<open>catch\<close> clause is its \<open>Inl\<close> branch.
\<close>

definition getSymlinkType :: "'s env \<Rightarrow> string \<Rightarrow> string \<Rightarrow> 's \<Rightarrow> ErrnoException + SymlinkType" where
  "getSymlinkType env targetPath srcPath s =
     (if platform env \<noteq> ''win32'' then Inr LinkFile
      else
        (let resolvedTarget =
               (if isAbsolute env targetPath then targetPath
                else path_resolve env (path_dirname env srcPath) targetPath)
         in case statSync env resolvedTarget s of
              Inr stat \<Rightarrow> Inr (if isDirectory stat then LinkDir else LinkFile)
            | Inl _ \<Rightarrow> Inr LinkFile))"

section \<open>\<open>polyfillCpSync\<close>\<close>

text \<open>\<open>options?.verbatimSymlinks ?? false\<close> and \<open>options?.dereference ?? false\<close> (lines 41-42).\<close>

definition opt_verbatimSymlinks :: "CpSyncOptions option \<Rightarrow> bool" where
  "opt_verbatimSymlinks options =
     (case options of None \<Rightarrow> False
      | Some opts \<Rightarrow> (case verbatimSymlinks opts of None \<Rightarrow> False | Some b \<Rightarrow> b))"

definition opt_dereference :: "CpSyncOptions option \<Rightarrow> bool" where
  "opt_dereference options =
     (case options of None \<Rightarrow> False
      | Some opts \<Rightarrow> (case dereference opts of None \<Rightarrow> False | Some b \<Rightarrow> b))"

text \<open>\<open>!options || !options.recursive\<close> (line 103): an absent field is falsy.\<close>

definition not_recursive :: "CpSyncOptions option \<Rightarrow> bool" where
  "not_recursive options =
     (case options of None \<Rightarrow> True
      | Some opts \<Rightarrow> (case recursive opts of None \<Rightarrow> True | Some b \<Rightarrow> \<not> b))"

text \<open>The error built at lines 104-105: a plain \<open>Error\<close> whose \<open>code\<close> is then assigned.\<close>

definition EISDIR_error :: "string \<Rightarrow> ErrnoException" where
  "EISDIR_error src =
     \<lparr> message = ''EISDIR: illegal operation on a directory, read '' @ [CHR 0x27] @ src @ [CHR 0x27],
       code = Some ''EISDIR'', errno = None, syscall = None, path = None \<rparr>"

text \<open>
  Lines 56-59, 65-68 and 97-100, the same three lines each time: create the parent of
  \<open>dest\<close> when \<open>path.dirname\<close> gives a non-empty string that does not exist.
\<close>

definition ensureParentDir :: "'s env \<Rightarrow> string \<Rightarrow> 's \<Rightarrow> ErrnoException option \<times> 's" where
  "ensureParentDir env dest s =
     (let parentDir = path_dirname env dest
      in if parentDir \<noteq> [] \<and> \<not> existsSync env parentDir s
         then mkdirpSync env parentDir s else (None, s))"

text \<open>Lines 56-60 and 97-101: the parent is ensured, then the bytes are copied.\<close>

definition copyFileInto :: "'s env \<Rightarrow> string \<Rightarrow> string \<Rightarrow> 's \<Rightarrow> 's outcome" where
  "copyFileInto env src dest s =
     (case ensureParentDir env dest s of
        (Some e, s1) \<Rightarrow> (Inl e, s1)
      | (None, s1) \<Rightarrow> completion (copyFileSync env src dest s1))"

text \<open>Lines 88-91: \<open>if (fs.existsSync(dest)) fs.unlinkSync(dest)\<close>.\<close>

definition removeExisting :: "'s env \<Rightarrow> string \<Rightarrow> 's \<Rightarrow> ErrnoException option \<times> 's" where
  "removeExisting env dest s = (if existsSync env dest s then unlinkSync env dest s else (None, s))"

text \<open>Lines 65-95: the link is copied as a link.\<close>

definition copySymlink :: "'s env \<Rightarrow> bool \<Rightarrow> string \<Rightarrow> string \<Rightarrow> 's \<Rightarrow> 's outcome" where
  "copySymlink env verbatim src dest s =
     (case ensureParentDir env dest s of
        (Some e, s1) \<Rightarrow> (Inl e, s1)
      | (None, s1) \<Rightarrow>
         (case readlinkSync env src s1 of
            Inl e \<Rightarrow> (Inl e, s1)
          | Inr linkTarget \<Rightarrow>
             (let newLinkTarget =
                    (if verbatim then linkTarget
                     else
                       (let resolvedTarget =
                              (if isAbsolute env linkTarget then linkTarget
                               else path_resolve env (path_dirname env src) linkTarget);
                            relativeTarget = path_relative env (path_dirname env dest) resolvedTarget
                        in if relativeTarget = [] then ''.'' else relativeTarget))
              in case removeExisting env dest s1 of
                   (Some e, s2) \<Rightarrow> (Inl e, s2)
                 | (None, s2) \<Rightarrow>
                    (case getSymlinkType env linkTarget src s2 of
                       Inl e \<Rightarrow> (Inl e, s2)
                     | Inr symlinkType \<Rightarrow>
                        completion (symlinkSync env newLinkTarget dest symlinkType s2)))))"

text \<open>
  Lines 40-116. The recursion follows the file system, which may hold a cycle (a link to
  an ancestor under \<open>dereference\<close>, a destination inside the source), so the model takes
  fuel: the number of nested calls allowed. \<open>None\<close> means the fuel ran out.
  \<open>copyEntries\<close> is the \<open>for\<close> loop of lines 112-114 over the entries still to copy.
\<close>

fun polyfillCpSync ::
      "nat \<Rightarrow> 's env \<Rightarrow> string \<Rightarrow> string \<Rightarrow> CpSyncOptions option \<Rightarrow> 's \<Rightarrow> 's outcome option"
  and copyEntries ::
      "nat \<Rightarrow> 's env \<Rightarrow> string \<Rightarrow> string \<Rightarrow> CpSyncOptions option \<Rightarrow> string list \<Rightarrow> 's
        \<Rightarrow> 's outcome option"
where
  "polyfillCpSync 0 env src dest options s = None"
| "polyfillCpSync (Suc n) env src dest options s =
     (case lstatSync env src s of
        Inl e \<Rightarrow> Some (Inl e, s)
      | Inr lstat \<Rightarrow>
         if isSymbolicLink lstat then
           (if opt_dereference options then
              (case realpathSync env src s of
                 Inl e \<Rightarrow> Some (Inl e, s)
               | Inr realPath \<Rightarrow>
                  (case statSync env realPath s of
                     Inl e \<Rightarrow> Some (Inl e, s)
                   | Inr realStat \<Rightarrow>
                      if isDirectory realStat
                      then polyfillCpSync n env realPath dest options s
                      else Some (copyFileInto env realPath dest s)))
            else Some (copySymlink env (opt_verbatimSymlinks options) src dest s))
         else if isFile lstat then Some (copyFileInto env src dest s)
         else if isDirectory lstat then
           (if not_recursive options then Some (Inl (EISDIR_error src), s)
            else
              (case (if \<not> existsSync env dest s then mkdirpSync env dest s else (None, s)) of
                 (Some e, s1) \<Rightarrow> Some (Inl e, s1)
               | (None, s1) \<Rightarrow>
                  (case readdirSync env src s1 of
                     Inl e \<Rightarrow> Some (Inl e, s1)
                   | Inr entries \<Rightarrow> copyEntries n env src dest options entries s1)))
         else Some (Inr (), s))"
| "copyEntries n env src dest options [] s = Some (Inr (), s)"
| "copyEntries n env src dest options (entry # rest) s =
     (case polyfillCpSync n env (path_join env src entry) (path_join env dest entry) options s of
        None \<Rightarrow> None
      | Some (Inl e, s1) \<Rightarrow> Some (Inl e, s1)
      | Some (Inr u, s1) \<Rightarrow> copyEntries n env src dest options rest s1)"

section \<open>A reference runtime: Node on a POSIX file system\<close>

text \<open>
  The theorems below hold for every runtime \<open>env\<close>. To run the copier on concrete trees,
  this section gives one runtime in full: a file tree with symbolic links, path lookup
  that follows links component by component, and \<open>path.posix\<close>.
\<close>

datatype inode = IFile string | ILink string | IFifo | IDir "(string \<times> inode) list"

fun get_node :: "inode \<Rightarrow> string list \<Rightarrow> inode option" where
  "get_node n [] = Some n"
| "get_node (IDir es) (c # cs) =
     (case map_of es c of None \<Rightarrow> None | Some m \<Rightarrow> get_node m cs)"
| "get_node n (c # cs) = None"

fun dir_update :: "string \<Rightarrow> inode \<Rightarrow> (string \<times> inode) list \<Rightarrow> (string \<times> inode) list" where
  "dir_update c m [] = [(c, m)]"
| "dir_update c m ((k, v) # es) = (if k = c then (c, m) # es else (k, v) # dir_update c m es)"

definition dir_remove :: "string \<Rightarrow> (string \<times> inode) list \<Rightarrow> (string \<times> inode) list" where
  "dir_remove c es = filter (\<lambda>(k, v). k \<noteq> c) es"

text \<open>\<open>set_node root q v\<close> stores (\<open>Some\<close>) or removes (\<open>None\<close>) the entry at the path \<open>q\<close>.\<close>

fun set_node :: "inode \<Rightarrow> string list \<Rightarrow> inode option \<Rightarrow> inode" where
  "set_node n [] v = n"
| "set_node (IDir es) [c] v =
     IDir (case v of None \<Rightarrow> dir_remove c es | Some m \<Rightarrow> dir_update c m es)"
| "set_node (IDir es) (c # cs) v =
     (case map_of es c of
        None \<Rightarrow> IDir es
      | Some m \<Rightarrow> IDir (dir_update c (set_node m cs v) es))"
| "set_node n (c # cs) v = n"

text \<open>The components of a path string: the runs between slashes, empty runs dropped.\<close>

fun components_aux :: "string \<Rightarrow> string \<Rightarrow> string list" where
  "components_aux acc [] = (if acc = [] then [] else [rev acc])"
| "components_aux acc (c # cs) =
     (if c = CHR ''/'' then (if acc = [] then [] else [rev acc]) @ components_aux [] cs
      else components_aux (c # acc) cs)"

definition components :: "string \<Rightarrow> string list" where
  "components p = components_aux [] p"

definition posix_isAbsolute :: "string \<Rightarrow> bool" where
  "posix_isAbsolute p = (case p of [] \<Rightarrow> False | c # _ \<Rightarrow> c = CHR ''/'')"

definition abs_path :: "string list \<Rightarrow> string" where
  "abs_path cs = (if cs = [] then ''/'' else concat (map (\<lambda>c. CHR ''/'' # c) cs))"

text \<open>
  Path lookup. \<open>cur\<close> is the directory reached so far, as the list of names from the
  root; a link met on the way is followed, at most \<open>k\<close> times (\<open>ELOOP\<close> beyond); the last
  component is followed only when \<open>follow\<close> is set.
\<close>

datatype lookup = Found "string list" | Absent "string list" string | Failed string

fun namei :: "nat \<Rightarrow> inode \<Rightarrow> bool \<Rightarrow> string list \<Rightarrow> string list \<Rightarrow> lookup" where
  "namei k root follow cur [] = Found cur"
| "namei k root follow cur (c # rest) =
     (if c = ''.'' then namei k root follow cur rest
      else if c = ''..'' then namei k root follow (butlast cur) rest
      else
        (case get_node root (cur @ [c]) of
           None \<Rightarrow> if rest = [] then Absent cur c else Failed ''ENOENT''
         | Some (ILink t) \<Rightarrow>
            if rest = [] \<and> \<not> follow then Found (cur @ [c])
            else
              (case k of
                 0 \<Rightarrow> Failed ''ELOOP''
               | Suc k' \<Rightarrow>
                  namei k' root follow (if posix_isAbsolute t then [] else cur)
                    (components t @ rest))
         | Some (IDir es) \<Rightarrow> namei k root follow (cur @ [c]) rest
         | Some n \<Rightarrow> if rest = [] then Found (cur @ [c]) else Failed ''ENOTDIR''))"

definition resolve_path :: "string list \<Rightarrow> bool \<Rightarrow> string \<Rightarrow> inode \<Rightarrow> lookup" where
  "resolve_path cwd follow p root =
     (if p = [] then Failed ''ENOENT''
      else namei 40 root follow (if posix_isAbsolute p then [] else cwd) (components p))"

definition sys_error :: "string \<Rightarrow> string \<Rightarrow> string \<Rightarrow> ErrnoException" where
  "sys_error c call p =
     \<lparr> message = c @ '', '' @ call @ '' '' @ [CHR 0x27] @ p @ [CHR 0x27],
       code = Some c, errno = Some (- 1), syscall = Some call, path = Some p \<rparr>"

fun stat_of :: "inode \<Rightarrow> Stats" where
  "stat_of (IFile b) = \<lparr> st_type = S_IFREG, st_size = length b \<rparr>"
| "stat_of (ILink t) = \<lparr> st_type = S_IFLNK, st_size = length t \<rparr>"
| "stat_of IFifo = \<lparr> st_type = S_IFIFO, st_size = 0 \<rparr>"
| "stat_of (IDir es) = \<lparr> st_type = S_IFDIR, st_size = 0 \<rparr>"

definition node_at :: "string list \<Rightarrow> bool \<Rightarrow> string \<Rightarrow> string \<Rightarrow> inode \<Rightarrow> ErrnoException + inode" where
  "node_at cwd follow call p root =
     (case resolve_path cwd follow p root of
        Found q \<Rightarrow>
          (case get_node root q of
             Some n \<Rightarrow> Inr n
           | None \<Rightarrow> Inl (sys_error ''ENOENT'' call p))
      | Absent par name \<Rightarrow> Inl (sys_error ''ENOENT'' call p)
      | Failed c \<Rightarrow> Inl (sys_error c call p))"

definition posix_lstatSync :: "string list \<Rightarrow> string \<Rightarrow> inode \<Rightarrow> ErrnoException + Stats" where
  "posix_lstatSync cwd p root = map_sum id stat_of (node_at cwd False ''lstat'' p root)"

definition posix_statSync :: "string list \<Rightarrow> string \<Rightarrow> inode \<Rightarrow> ErrnoException + Stats" where
  "posix_statSync cwd p root = map_sum id stat_of (node_at cwd True ''stat'' p root)"

definition posix_existsSync :: "string list \<Rightarrow> string \<Rightarrow> inode \<Rightarrow> bool" where
  "posix_existsSync cwd p root =
     (case node_at cwd True ''access'' p root of Inr n \<Rightarrow> True | Inl e \<Rightarrow> False)"

definition posix_realpathSync :: "string list \<Rightarrow> string \<Rightarrow> inode \<Rightarrow> ErrnoException + string" where
  "posix_realpathSync cwd p root =
     (case resolve_path cwd True p root of
        Found q \<Rightarrow> Inr (abs_path q)
      | Absent par name \<Rightarrow> Inl (sys_error ''ENOENT'' ''realpath'' p)
      | Failed c \<Rightarrow> Inl (sys_error c ''realpath'' p))"

definition posix_readlinkSync :: "string list \<Rightarrow> string \<Rightarrow> inode \<Rightarrow> ErrnoException + string" where
  "posix_readlinkSync cwd p root =
     (case node_at cwd False ''readlink'' p root of
        Inl e \<Rightarrow> Inl e
      | Inr (ILink t) \<Rightarrow> Inr t
      | Inr n \<Rightarrow> Inl (sys_error ''EINVAL'' ''readlink'' p))"

definition posix_readdirSync :: "string list \<Rightarrow> string \<Rightarrow> inode \<Rightarrow> ErrnoException + string list" where
  "posix_readdirSync cwd p root =
     (case node_at cwd True ''scandir'' p root of
        Inl e \<Rightarrow> Inl e
      | Inr (IDir es) \<Rightarrow> Inr (map fst es)
      | Inr n \<Rightarrow> Inl (sys_error ''ENOTDIR'' ''scandir'' p))"

text \<open>\<open>unlink(2)\<close> removes a name, link or not, and refuses a directory.\<close>

definition posix_unlinkSync :: "string list \<Rightarrow> string \<Rightarrow> inode \<Rightarrow> ErrnoException option \<times> inode" where
  "posix_unlinkSync cwd p root =
     (case resolve_path cwd False p root of
        Found q \<Rightarrow>
          (case get_node root q of
             None \<Rightarrow> (Some (sys_error ''ENOENT'' ''unlink'' p), root)
           | Some (IDir es) \<Rightarrow> (Some (sys_error ''EISDIR'' ''unlink'' p), root)
           | Some n \<Rightarrow> (None, set_node root q None))
      | Absent par name \<Rightarrow> (Some (sys_error ''ENOENT'' ''unlink'' p), root)
      | Failed c \<Rightarrow> (Some (sys_error c ''unlink'' p), root))"

text \<open>\<open>symlink(2)\<close> and \<open>mkdir(2)\<close> create a name that must not exist, dangling link included.\<close>

definition create_at :: "string list \<Rightarrow> string \<Rightarrow> string \<Rightarrow> inode \<Rightarrow> inode \<Rightarrow> ErrnoException option \<times> inode" where
  "create_at cwd call p new root =
     (case resolve_path cwd False p root of
        Found q \<Rightarrow> (Some (sys_error ''EEXIST'' call p), root)
      | Absent par name \<Rightarrow> (None, set_node root (par @ [name]) (Some new))
      | Failed c \<Rightarrow> (Some (sys_error c call p), root))"

definition posix_symlinkSync ::
  "string list \<Rightarrow> string \<Rightarrow> string \<Rightarrow> SymlinkType \<Rightarrow> inode \<Rightarrow> ErrnoException option \<times> inode" where
  "posix_symlinkSync cwd target p type root = create_at cwd ''symlink'' p (ILink target) root"

definition posix_mkdirSync :: "string list \<Rightarrow> string \<Rightarrow> inode \<Rightarrow> ErrnoException option \<times> inode" where
  "posix_mkdirSync cwd p root = create_at cwd ''mkdir'' p (IDir []) root"

text \<open>Lexical normalisation, as \<open>path.posix\<close> does it: \<open>acc\<close> is the stack of names, reversed.\<close>

fun normalize_names :: "bool \<Rightarrow> string list \<Rightarrow> string list \<Rightarrow> string list" where
  "normalize_names allowAboveRoot acc [] = rev acc"
| "normalize_names allowAboveRoot acc (c # cs) =
     (if c = ''.'' then normalize_names allowAboveRoot acc cs
      else if c = ''..'' then
        (case acc of
           [] \<Rightarrow> normalize_names allowAboveRoot (if allowAboveRoot then [c] else []) cs
         | a # as \<Rightarrow>
            if a = ''..'' then normalize_names allowAboveRoot (c # acc) cs
            else normalize_names allowAboveRoot as cs)
      else normalize_names allowAboveRoot (c # acc) cs)"

fun join_names :: "string list \<Rightarrow> string" where
  "join_names [] = []"
| "join_names [c] = c"
| "join_names (c # cs) = c @ CHR ''/'' # join_names cs"

definition resolved_names :: "string list \<Rightarrow> string \<Rightarrow> string list" where
  "resolved_names cwd p =
     normalize_names False [] (if posix_isAbsolute p then components p else cwd @ components p)"

definition posix_resolve :: "string list \<Rightarrow> string \<Rightarrow> string \<Rightarrow> string" where
  "posix_resolve cwd a b =
     abs_path (normalize_names False []
       (if posix_isAbsolute b then components b
        else if posix_isAbsolute a then components a @ components b
        else cwd @ components a @ components b))"

fun strip_common :: "string list \<Rightarrow> string list \<Rightarrow> string list \<times> string list" where
  "strip_common (x # xs) (y # ys) = (if x = y then strip_common xs ys else (x # xs, y # ys))"
| "strip_common xs ys = (xs, ys)"

definition posix_relative :: "string list \<Rightarrow> string \<Rightarrow> string \<Rightarrow> string" where
  "posix_relative cwd from to =
     (case strip_common (resolved_names cwd from) (resolved_names cwd to) of
        (up, down) \<Rightarrow> join_names (replicate (length up) ''..'' @ down))"

text \<open>
  \<open>path.posix.dirname\<close>: trailing slashes are skipped, then the path is cut before the
  last slash at an index of at least 1.
\<close>

definition posix_dirname :: "string \<Rightarrow> string" where
  "posix_dirname p =
     (case p of
        [] \<Rightarrow> ''.''
      | c # cs \<Rightarrow>
         (let r = dropWhile (\<lambda>x. x \<noteq> CHR ''/'') (dropWhile (\<lambda>x. x = CHR ''/'') (rev cs))
          in if r = [] then (if c = CHR ''/'' then ''/'' else ''.'')
             else if c = CHR ''/'' \<and> length r = 1 then ''//''
             else c # rev (tl r)))"

text \<open>\<open>path.posix.join\<close> of two strings: joined with a slash, then \<open>path.posix.normalize\<close>.\<close>

definition posix_normalize :: "string \<Rightarrow> string" where
  "posix_normalize p =
     (if p = [] then ''.''
      else
        (let isAbs = posix_isAbsolute p;
             trailing = (last p = CHR ''/'');
             body = join_names (normalize_names (\<not> isAbs) [] (components p))
         in if body = [] then (if isAbs then ''/'' else if trailing then ''./'' else ''.'')
            else (if isAbs then ''/'' else []) @ body @ (if trailing then ''/'' else [])))"

definition posix_join :: "string \<Rightarrow> string \<Rightarrow> string" where
  "posix_join a b =
     (if a = [] \<and> b = [] then ''.''
      else if a = [] then posix_normalize b
      else if b = [] then posix_normalize a
      else posix_normalize (a @ CHR ''/'' # b))"

text \<open>
  \<open>mkdirp.sync\<close> of mkdirp-classic on the resolved path, given as its names from the last
  to the first: \<open>mkdir\<close>; on \<open>ENOENT\<close> the parent is made first and \<open>mkdir\<close> is tried again;
  on any other error the path must already be a directory.
\<close>

definition mkdir_or_dir :: "string list \<Rightarrow> string \<Rightarrow> inode \<Rightarrow> ErrnoException option \<times> inode" where
  "mkdir_or_dir cwd p root =
     (case posix_mkdirSync cwd p root of
        (None, root') \<Rightarrow> (None, root')
      | (Some e, root') \<Rightarrow>
         (case posix_statSync cwd p root' of
            Inr st \<Rightarrow> if isDirectory st then (None, root') else (Some e, root')
          | Inl e1 \<Rightarrow> (Some e, root')))"

fun mkdirp_names :: "string list \<Rightarrow> string list \<Rightarrow> inode \<Rightarrow> ErrnoException option \<times> inode" where
  "mkdirp_names cwd [] root = mkdir_or_dir cwd ''/'' root"
| "mkdirp_names cwd (c # up) root =
     (let p = abs_path (rev (c # up))
      in case posix_mkdirSync cwd p root of
           (None, root') \<Rightarrow> (None, root')
         | (Some e, root') \<Rightarrow>
            if code e = Some ''ENOENT'' then
              (case mkdirp_names cwd up root' of
                 (Some e1, root1) \<Rightarrow> (Some e1, root1)
               | (None, root1) \<Rightarrow> mkdir_or_dir cwd p root1)
            else mkdir_or_dir cwd p root')"

definition posix_mkdirpSync :: "string list \<Rightarrow> string \<Rightarrow> inode \<Rightarrow> ErrnoException option \<times> inode" where
  "posix_mkdirpSync cwd p root = mkdirp_names cwd (rev (resolved_names cwd p)) root"

text \<open>
  The byte copier: the source must be a regular file; the destination is opened for
  writing through links and created when absent.
\<close>

definition posix_copyFileSync :: "string list \<Rightarrow> string \<Rightarrow> string \<Rightarrow> inode \<Rightarrow> ErrnoException option \<times> inode" where
  "posix_copyFileSync cwd a b root =
     (case node_at cwd True ''copyfile'' a root of
        Inl e \<Rightarrow> (Some e, root)
      | Inr (IFile bytes) \<Rightarrow>
         (case resolve_path cwd True b root of
            Found q \<Rightarrow>
              (case get_node root q of
                 Some (IFile old) \<Rightarrow> (None, set_node root q (Some (IFile bytes)))
               | Some (IDir es) \<Rightarrow> (Some (sys_error ''EISDIR'' ''copyfile'' a), root)
               | Some n \<Rightarrow> (Some (sys_error ''EINVAL'' ''copyfile'' a), root)
               | None \<Rightarrow> (Some (sys_error ''ENOENT'' ''copyfile'' a), root))
          | Absent par name \<Rightarrow> (None, set_node root (par @ [name]) (Some (IFile bytes)))
          | Failed c \<Rightarrow> (Some (sys_error c ''copyfile'' a), root))
      | Inr (IDir es) \<Rightarrow> (Some (sys_error ''EISDIR'' ''copyfile'' a), root)
      | Inr n \<Rightarrow> (Some (sys_error ''EINVAL'' ''copyfile'' a), root))"

definition posix :: "string list \<Rightarrow> inode env" where
  "posix cwd =
     \<lparr> platform = ''linux'',
       isAbsolute = posix_isAbsolute,
       path_dirname = posix_dirname,
       path_resolve = posix_resolve cwd,
       path_relative = posix_relative cwd,
       path_join = posix_join,
       lstatSync = posix_lstatSync cwd,
       statSync = posix_statSync cwd,
       realpathSync = posix_realpathSync cwd,
       existsSync = posix_existsSync cwd,
       readlinkSync = posix_readlinkSync cwd,
       readdirSync = posix_readdirSync cwd,
       mkdirpSync = posix_mkdirpSync cwd,
       unlinkSync = posix_unlinkSync cwd,
       symlinkSync = posix_symlinkSync cwd,
       copyFileSync = posix_copyFileSync cwd \<rparr>"

section \<open>The link target as the specification words it\<close>

text \<open>
  The raw target made absolute: kept when it is absolute, resolved against the directory
  of the source link otherwise.
\<close>

definition spec_absolute_target :: "'s env \<Rightarrow> string \<Rightarrow> string \<Rightarrow> string" where
  "spec_absolute_target env rawTarget src =
     (if isAbsolute env rawTarget then rawTarget
      else path_resolve env (path_dirname env src) rawTarget)"

text \<open>
  The new target: the raw target when \<open>verbatimSymlinks\<close> is set; otherwise the absolute
  target expressed relative to the directory of the destination link, and \<open>.\<close> when that
  relative path is empty.
\<close>

definition spec_link_target :: "'s env \<Rightarrow> bool \<Rightarrow> string \<Rightarrow> string \<Rightarrow> string \<Rightarrow> string" where
  "spec_link_target env verbatim rawTarget src dest =
     (if verbatim then rawTarget
      else if path_relative env (path_dirname env dest) (spec_absolute_target env rawTarget src) = []
      then ''.''
      else path_relative env (path_dirname env dest) (spec_absolute_target env rawTarget src))"

section \<open>Exceptions of the primitives\<close>

text \<open>\<open>raises_only env P\<close>: every exception that a primitive of \<open>env\<close> throws satisfies \<open>P\<close>.\<close>

definition raises_only :: "'s env \<Rightarrow> (ErrnoException \<Rightarrow> bool) \<Rightarrow> bool" where
  "raises_only env P =
     (\<forall>p s e.
        (lstatSync env p s = Inl e \<longrightarrow> P e)
      \<and> (statSync env p s = Inl e \<longrightarrow> P e)
      \<and> (realpathSync env p s = Inl e \<longrightarrow> P e)
      \<and> (readlinkSync env p s = Inl e \<longrightarrow> P e)
      \<and> (readdirSync env p s = Inl e \<longrightarrow> P e)
      \<and> (\<forall>s'. mkdirpSync env p s = (Some e, s') \<longrightarrow> P e)
      \<and> (\<forall>s'. unlinkSync env p s = (Some e, s') \<longrightarrow> P e)
      \<and> (\<forall>t ty s'. symlinkSync env t p ty s = (Some e, s') \<longrightarrow> P e)
      \<and> (\<forall>q s'. copyFileSync env p q s = (Some e, s') \<longrightarrow> P e))"

section \<open>Sample trees and options\<close>

text \<open>The tree the repository's tests build: a file, a link to it, a directory and a link to it.\<close>

definition tree_with_link :: inode where
  "tree_with_link =
     IDir [(''src'',
            IDir [(''target.txt'', IFile ''target content''),
                  (''link.txt'', ILink ''target.txt''),
                  (''realdir'', IDir [(''file.txt'', IFile ''file content'')]),
                  (''linkdir'', ILink ''realdir''),
                  (''pipe'', IFifo)])]"

text \<open>A source directory whose only entry is a link to a name that does not exist.\<close>

definition tree_with_stale_link :: inode where
  "tree_with_stale_link = IDir [(''src'', IDir [(''stale'', ILink ''missing'')])]"

text \<open>A source directory whose only entry is a link to the directory itself.\<close>

definition tree_with_self_link :: inode where
  "tree_with_self_link = IDir [(''src'', IDir [(''here'', ILink ''.'')])]"

definition recursive_only :: "CpSyncOptions option" where
  "recursive_only = Some \<lparr> recursive = Some True, verbatimSymlinks = None, dereference = None \<rparr>"

definition recursive_dereference :: "CpSyncOptions option" where
  "recursive_dereference =
     Some \<lparr> recursive = Some True, verbatimSymlinks = None, dereference = Some True \<rparr>"

text \<open>The same file tree under a runtime that reports \<open>win32\<close>, where links are typed.\<close>

definition win32_view :: "inode env" where
  "win32_view = (posix [])\<lparr> platform := ''win32'' \<rparr>"


text \<open>A runtime whose link calls (\<open>readlink\<close>, \<open>unlink\<close>, \<open>symlink\<close>) always fail.\<close>

definition posix_without_links :: "inode env" where
  "posix_without_links =
     (posix [])\<lparr> readlinkSync := (\<lambda>p s. Inl (sys_error ''EIO'' ''readlink'' p)),
                 unlinkSync := (\<lambda>p s. (Some (sys_error ''EIO'' ''unlink'' p), s)),
                 symlinkSync := (\<lambda>t p ty s. (Some (sys_error ''EIO'' ''symlink'' p), s)) \<rparr>"

section \<open>Lemmas on the copier\<close>

lemma getSymlinkType_never_throws: "\<exists>t. getSymlinkType env targetPath srcPath s = Inr t"
  by (simp add: getSymlinkType_def Let_def split: sum.splits)

lemma polyfillCpSync_symlink:
  assumes "lstatSync env src s = Inr st"
    and "isSymbolicLink st"
    and "\<not> opt_dereference options"
  shows "polyfillCpSync (Suc n) env src dest options s =
           Some (copySymlink env (opt_verbatimSymlinks options) src dest s)"
  using assms by simp

lemma copySymlink_steps:
  assumes "ensureParentDir env dest s = (None, s1)"
    and "readlinkSync env src s1 = Inr rawTarget"
    and "removeExisting env dest s1 = (None, s2)"
    and "getSymlinkType env rawTarget src s2 = Inr hint"
  shows "copySymlink env verbatim src dest s =
           completion
             (symlinkSync env (spec_link_target env verbatim rawTarget src dest) dest hint s2)"
  using assms
  by (simp add: copySymlink_def spec_link_target_def spec_absolute_target_def Let_def)

text \<open>Two runtimes that agree on what a run reads give the same run.\<close>

lemma copyFileInto_cong:
  assumes "path_dirname env' = path_dirname env" "existsSync env' = existsSync env"
    "mkdirpSync env' = mkdirpSync env" "copyFileSync env' = copyFileSync env"
  shows "copyFileInto env' = copyFileInto env"
  by (intro ext)
     (simp add: copyFileInto_def ensureParentDir_def Let_def assms
           cong: prod.case_cong option.case_cong)

lemma copyEntries_env_cong:
  assumes "\<And>src dest s. polyfillCpSync n env' src dest options s = polyfillCpSync n env src dest options s"
    and "path_join env' = path_join env"
  shows "copyEntries n env' src dest options entries s = copyEntries n env src dest options entries s"
  by (induction entries arbitrary: s) (simp_all add: assms split: option.splits sum.splits prod.splits)

lemma polyfillCpSync_env_cong:
  assumes "lstatSync env' = lstatSync env"
    and "path_join env' = path_join env"
    and "existsSync env' = existsSync env"
    and "mkdirpSync env' = mkdirpSync env"
    and "readdirSync env' = readdirSync env"
    and "copyFileInto env' = copyFileInto env"
    and "opt_dereference options \<Longrightarrow> realpathSync env' = realpathSync env \<and> statSync env' = statSync env"
    and "\<not> opt_dereference options \<Longrightarrow>
           copySymlink env' (opt_verbatimSymlinks options) = copySymlink env (opt_verbatimSymlinks options)"
  shows "polyfillCpSync n env' src dest options s = polyfillCpSync n env src dest options s"
proof (induction n arbitrary: src dest s)
  case 0
  show ?case by simp
next
  case (Suc n)
  have loop: "\<And>src dest entries s.
      copyEntries n env' src dest options entries s = copyEntries n env src dest options entries s"
    by (rule copyEntries_env_cong) (simp_all add: Suc.IH assms(2))
  show ?case
  proof (cases "opt_dereference options")
    case True
    with assms(7) have "realpathSync env' = realpathSync env" "statSync env' = statSync env"
      by simp_all
    then show ?thesis
      using True
      by (simp add: assms(1,3,4,5,6) loop Suc.IH
               cong: sum.case_cong prod.case_cong option.case_cong if_cong)
  next
    case False
    with assms(8) have "copySymlink env' (opt_verbatimSymlinks options)
        = copySymlink env (opt_verbatimSymlinks options)"
      by simp
    then show ?thesis
      using False
      by (simp add: assms(1,3,4,5,6) loop
               cong: sum.case_cong prod.case_cong option.case_cong if_cong)
  qed
qed

text \<open>Under \<open>dereference\<close> the run does not read \<open>verbatimSymlinks\<close>.\<close>

lemma copyEntries_options_cong:
  assumes "\<And>src dest s. polyfillCpSync n env src dest options' s = polyfillCpSync n env src dest options s"
  shows "copyEntries n env src dest options' entries s = copyEntries n env src dest options entries s"
  by (induction entries arbitrary: s) (simp_all add: assms split: option.splits sum.splits prod.splits)

lemma polyfillCpSync_options_cong:
  assumes "opt_dereference options" and "opt_dereference options'"
    and "not_recursive options' = not_recursive options"
  shows "polyfillCpSync n env src dest options' s = polyfillCpSync n env src dest options s"
proof (induction n arbitrary: src dest s)
  case 0
  show ?case by simp
next
  case (Suc n)
  have loop: "\<And>src dest entries s.
      copyEntries n env src dest options' entries s = copyEntries n env src dest options entries s"
    by (rule copyEntries_options_cong) (simp add: Suc.IH)
  show ?case
    by (simp add: assms loop Suc.IH
             cong: sum.case_cong prod.case_cong option.case_cong if_cong)
qed

text \<open>What the primitives throw is all that a recursive copy throws.\<close>

lemma raises_onlyD:
  assumes "raises_only env P"
  shows "lstatSync env p s = Inl e \<Longrightarrow> P e"
    and "statSync env p s = Inl e \<Longrightarrow> P e"
    and "realpathSync env p s = Inl e \<Longrightarrow> P e"
    and "readlinkSync env p s = Inl e \<Longrightarrow> P e"
    and "readdirSync env p s = Inl e \<Longrightarrow> P e"
    and "mkdirpSync env p s = (Some e, s') \<Longrightarrow> P e"
    and "unlinkSync env p s = (Some e, s') \<Longrightarrow> P e"
    and "symlinkSync env t p ty s = (Some e, s') \<Longrightarrow> P e"
    and "copyFileSync env p q s = (Some e, s') \<Longrightarrow> P e"
  using assms unfolding raises_only_def by blast+

lemma raises_only_mono:
  assumes "raises_only env P" and "\<And>e. P e \<Longrightarrow> Q e"
  shows "raises_only env Q"
  using assms unfolding raises_only_def by blast

lemma ensureParentDir_raises:
  assumes "raises_only env P" "ensureParentDir env dest s = (Some e, s')"
  shows "P e"
  using assms(2) raises_onlyD(6) [OF assms(1)]
  by (auto simp: ensureParentDir_def Let_def split: if_splits)

lemma copyFileInto_raises:
  assumes "raises_only env P" "copyFileInto env src dest s = (Inl e, s')"
  shows "P e"
  using assms(2) ensureParentDir_raises [OF assms(1)] raises_onlyD(9) [OF assms(1)]
  by (auto simp: copyFileInto_def completion_def split: prod.splits option.splits)

lemma removeExisting_raises:
  assumes "raises_only env P" "removeExisting env dest s = (Some e, s')"
  shows "P e"
  using assms(2) raises_onlyD(7) [OF assms(1)]
  by (auto simp: removeExisting_def split: if_splits)

lemma copySymlink_raises:
  assumes "raises_only env P" "copySymlink env v src dest s = (Inl e, s')"
  shows "P e"
proof -
  have g: "getSymlinkType env t p s \<noteq> Inl e" for t p s
    using getSymlinkType_never_throws [of env t p s] by auto
  show ?thesis
    using assms(2) g ensureParentDir_raises [OF assms(1)] removeExisting_raises [OF assms(1)]
      raises_onlyD(4,8) [OF assms(1)]
    by (auto simp: copySymlink_def completion_def Let_def
             split: prod.splits option.splits sum.splits)
qed

lemma copyEntries_raises:
  assumes "\<And>src dest s e s'. polyfillCpSync n env src dest options s = Some (Inl e, s') \<Longrightarrow> P e"
  shows "copyEntries n env src dest options entries s = Some (Inl e, s') \<Longrightarrow> P e"
proof (induction entries arbitrary: s)
  case Nil
  then show ?case by simp
next
  case (Cons entry rest)
  then show ?case
    using assms by (auto split: option.splits sum.splits prod.splits)
qed

lemma polyfillCpSync_raises:
  assumes "raises_only env P" and "\<not> not_recursive options"
  shows "polyfillCpSync n env src dest options s = Some (Inl e, s') \<Longrightarrow> P e"
proof (induction n arbitrary: src dest s e s')
  case 0
  then show ?case by simp
next
  case (Suc n)
  note loop = copyEntries_raises [of n env options P, OF Suc.IH]
  show ?case
    using Suc.prems assms(2) Suc.IH loop
      raises_onlyD(1,2,3,5,6) [OF assms(1)]
      copyFileInto_raises [OF assms(1)] copySymlink_raises [OF assms(1)]
    by (auto split: sum.splits if_splits prod.splits option.splits)
qed

section \<open>Lemmas on the reference runtime\<close>

lemma syscall_sys_error: "syscall (sys_error c call p) = Some call"
  by (simp add: sys_error_def)

lemma syscall_EISDIR_error: "syscall (EISDIR_error p) = None"
  by (simp add: EISDIR_error_def)

lemma node_at_raises: "node_at cwd follow call p root = Inl e \<Longrightarrow> syscall e \<noteq> None"
  by (auto simp: node_at_def syscall_sys_error split: lookup.splits option.splits)

lemma create_at_raises: "create_at cwd call p new root = (Some e, root') \<Longrightarrow> syscall e \<noteq> None"
  by (auto simp: create_at_def syscall_sys_error split: lookup.splits)

lemma mkdir_or_dir_raises: "mkdir_or_dir cwd p root = (Some e, root') \<Longrightarrow> syscall e \<noteq> None"
  by (auto simp: mkdir_or_dir_def posix_mkdirSync_def
           split: prod.splits option.splits sum.splits if_splits dest: create_at_raises)

lemma mkdirp_names_raises: "mkdirp_names cwd names root = (Some e, root') \<Longrightarrow> syscall e \<noteq> None"
proof (induction names arbitrary: root root' e)
  case Nil
  then show ?case by (auto dest: mkdir_or_dir_raises)
next
  case (Cons c up)
  then show ?case
    by (auto simp: Let_def split: prod.splits option.splits if_splits
             dest: mkdir_or_dir_raises)
qed

lemma posix_copyFileSync_raises:
  "posix_copyFileSync cwd a b root = (Some e, root') \<Longrightarrow> syscall e \<noteq> None"
  by (auto simp: posix_copyFileSync_def syscall_sys_error
           split: sum.splits inode.splits lookup.splits option.splits dest: node_at_raises)

lemma posix_unlinkSync_raises:
  "posix_unlinkSync cwd p root = (Some e, root') \<Longrightarrow> syscall e \<noteq> None"
  by (auto simp: posix_unlinkSync_def syscall_sys_error
           split: inode.splits lookup.splits option.splits)

lemma posix_raises_system_errors: "raises_only (posix cwd) (\<lambda>e. syscall e \<noteq> None)"
  unfolding raises_only_def
proof (intro allI conjI impI)
  fix p root e
  show "lstatSync (posix cwd) p root = Inl e \<Longrightarrow> syscall e \<noteq> None"
    by (cases "node_at cwd False ''lstat'' p root")
       (auto simp: posix_def posix_lstatSync_def dest: node_at_raises)
  show "statSync (posix cwd) p root = Inl e \<Longrightarrow> syscall e \<noteq> None"
    by (cases "node_at cwd True ''stat'' p root")
       (auto simp: posix_def posix_statSync_def dest: node_at_raises)
  show "realpathSync (posix cwd) p root = Inl e \<Longrightarrow> syscall e \<noteq> None"
    by (auto simp: posix_def posix_realpathSync_def syscall_sys_error split: lookup.splits)
  show "readlinkSync (posix cwd) p root = Inl e \<Longrightarrow> syscall e \<noteq> None"
    by (auto simp: posix_def posix_readlinkSync_def syscall_sys_error
             split: sum.splits inode.splits dest: node_at_raises)
  show "readdirSync (posix cwd) p root = Inl e \<Longrightarrow> syscall e \<noteq> None"
    by (auto simp: posix_def posix_readdirSync_def syscall_sys_error
             split: sum.splits inode.splits dest: node_at_raises)
  show "\<And>s'. mkdirpSync (posix cwd) p root = (Some e, s') \<Longrightarrow> syscall e \<noteq> None"
    by (auto simp: posix_def posix_mkdirpSync_def dest: mkdirp_names_raises)
  show "\<And>s'. unlinkSync (posix cwd) p root = (Some e, s') \<Longrightarrow> syscall e \<noteq> None"
    by (auto simp: posix_def dest: posix_unlinkSync_raises)
  show "\<And>t ty s'. symlinkSync (posix cwd) t p ty root = (Some e, s') \<Longrightarrow> syscall e \<noteq> None"
    by (auto simp: posix_def posix_symlinkSync_def dest: create_at_raises)
  show "\<And>q s'. copyFileSync (posix cwd) p q root = (Some e, s') \<Longrightarrow> syscall e \<noteq> None"
    by (auto simp: posix_def dest: posix_copyFileSync_raises)
qed

lemma posix_never_raises_EISDIR_error:
  "raises_only (posix cwd) (\<lambda>e. \<forall>p. e \<noteq> EISDIR_error p)"
  by (rule raises_only_mono [OF posix_raises_system_errors]) (auto simp: syscall_EISDIR_error)

section \<open>The claims\<close>

text \<open>
  C1. A link copied as a link (\<open>dereference\<close> not \<open>true\<close>): once the parent of \<open>dest\<close> is
  ensured, the source link is read and \<open>dest\<close> is cleared, the link created at \<open>dest\<close>
  has the target the specification describes: the raw target when the option field
  \<open>verbatimSymlinks\<close> is \<open>true\<close>; otherwise (no options, field absent or \<open>false\<close>) the
  raw target made absolute against the directory of the source link and then made
  relative to the directory of the destination link, with \<open>.\<close> for the empty path.
\<close>

theorem link_target_as_specified:
  assumes "lstatSync env src s = Inr st"
    and "isSymbolicLink st"
    and "options = None \<or> (\<exists>opts. options = Some opts \<and> dereference opts \<noteq> Some True)"
    and "(if path_dirname env dest \<noteq> [] \<and> \<not> existsSync env (path_dirname env dest) s
          then mkdirpSync env (path_dirname env dest) s else (None, s)) = (None, s1)"
    and "readlinkSync env src s1 = Inr rawTarget"
    and "(if existsSync env dest s1 then unlinkSync env dest s1 else (None, s1)) = (None, s2)"
  shows "\<exists>hint. polyfillCpSync (Suc n) env src dest options s =
           Some (case symlinkSync env
                        (spec_link_target env
                           (case options of
                              None \<Rightarrow> False
                            | Some opts \<Rightarrow> verbatimSymlinks opts = Some True)
                           rawTarget src dest)
                        dest hint s2 of
                   (None, s3) \<Rightarrow> (Inr (), s3)
                 | (Some e, s3) \<Rightarrow> (Inl e, s3))"
proof -
  obtain hint where h: "getSymlinkType env rawTarget src s2 = Inr hint"
    using getSymlinkType_never_throws [of env rawTarget src s2] by auto
  have d: "\<not> opt_dereference options"
    using assms(3) by (auto simp: opt_dereference_def split: option.splits)
  have v: "opt_verbatimSymlinks options
             = (case options of None \<Rightarrow> False | Some opts \<Rightarrow> verbatimSymlinks opts = Some True)"
    by (auto simp: opt_verbatimSymlinks_def split: option.splits)
  have p: "ensureParentDir env dest s = (None, s1)"
    using assms(4) by (simp add: ensureParentDir_def Let_def)
  have r: "removeExisting env dest s1 = (None, s2)"
    using assms(6) by (simp add: removeExisting_def)
  have "polyfillCpSync (Suc n) env src dest options s =
           Some (case symlinkSync env
                        (spec_link_target env
                           (case options of
                              None \<Rightarrow> False
                            | Some opts \<Rightarrow> verbatimSymlinks opts = Some True)
                           rawTarget src dest)
                        dest hint s2 of
                   (None, s3) \<Rightarrow> (Inr (), s3)
                 | (Some e, s3) \<Rightarrow> (Inl e, s3))"
    using polyfillCpSync_symlink [OF assms(1,2) d, of n dest]
      copySymlink_steps [OF p assms(5) r h, of "opt_verbatimSymlinks options"]
    by (simp add: v completion_def)
  then show ?thesis ..
qed

theorem link_target_as_specified_witness:
  "polyfillCpSync (Suc 0) (posix []) ''/src/link.txt'' ''/dest/link.txt'' None tree_with_link
     = Some (Inr (),
             set_node (set_node tree_with_link [''dest''] (Some (IDir [])))
               [''dest'', ''link.txt''] (Some (ILink ''../src/target.txt'')))
   \<and> polyfillCpSync (Suc 0) (posix []) ''/src/link.txt'' ''/dest/link.txt''
        (Some \<lparr> recursive = None, verbatimSymlinks = Some True, dereference = None \<rparr>)
        tree_with_link
     = Some (Inr (),
             set_node (set_node tree_with_link [''dest''] (Some (IDir [])))
               [''dest'', ''link.txt''] (Some (ILink ''target.txt'')))
   \<and> polyfillCpSync (Suc 0) (posix []) ''/src/here'' ''/src/there'' None tree_with_self_link
     = Some (Inr (), set_node tree_with_self_link [''src'', ''there''] (Some (ILink ''.'')))"
proof -
  let ?s1 = "set_node tree_with_link [''dest''] (Some (IDir []))"
  let ?verbatim = "\<lparr> recursive = None, verbatimSymlinks = Some True, dereference = None \<rparr>"
  have h1: "lstatSync (posix []) ''/src/link.txt'' tree_with_link
              = Inr \<lparr> st_type = S_IFLNK, st_size = 10 \<rparr>"
    by code_simp
  have h2: "isSymbolicLink \<lparr> st_type = S_IFLNK, st_size = 10 \<rparr>"
    by (simp add: isSymbolicLink_def)
  have h3: "(None :: CpSyncOptions option) = None
            \<or> (\<exists>opts. (None :: CpSyncOptions option) = Some opts \<and> dereference opts \<noteq> Some True)"
    by simp
  have h3v: "Some ?verbatim = None
            \<or> (\<exists>opts. Some ?verbatim = Some opts \<and> dereference opts \<noteq> Some True)"
    by simp
  have h4: "(if path_dirname (posix []) ''/dest/link.txt'' \<noteq> []
               \<and> \<not> existsSync (posix []) (path_dirname (posix []) ''/dest/link.txt'') tree_with_link
             then mkdirpSync (posix []) (path_dirname (posix []) ''/dest/link.txt'') tree_with_link
             else (None, tree_with_link)) = (None, ?s1)"
    by code_simp
  have h5: "readlinkSync (posix []) ''/src/link.txt'' ?s1 = Inr ''target.txt''"
    by code_simp
  have h6: "(if existsSync (posix []) ''/dest/link.txt'' ?s1
             then unlinkSync (posix []) ''/dest/link.txt'' ?s1 else (None, ?s1)) = (None, ?s1)"
    by code_simp
  have t: "spec_link_target (posix []) False ''target.txt'' ''/src/link.txt'' ''/dest/link.txt''
             = ''../src/target.txt''"
    by code_simp
  have tv: "spec_link_target (posix []) True ''target.txt'' ''/src/link.txt'' ''/dest/link.txt''
             = ''target.txt''"
    by (simp add: spec_link_target_def)
  have y: "symlinkSync (posix []) ''../src/target.txt'' ''/dest/link.txt'' hint ?s1
             = (None, set_node ?s1 [''dest'', ''link.txt''] (Some (ILink ''../src/target.txt'')))"
    for hint
    by (cases hint; code_simp)
  have yv: "symlinkSync (posix []) ''target.txt'' ''/dest/link.txt'' hint ?s1
             = (None, set_node ?s1 [''dest'', ''link.txt''] (Some (ILink ''target.txt'')))"
    for hint
    by (cases hint; code_simp)
  from link_target_as_specified [OF h1 h2 h3 h4 h5 h6, of 0]
  have a: "polyfillCpSync (Suc 0) (posix []) ''/src/link.txt'' ''/dest/link.txt'' None tree_with_link
     = Some (Inr (),
             set_node ?s1 [''dest'', ''link.txt''] (Some (ILink ''../src/target.txt'')))"
    by (auto simp: t y)
  from link_target_as_specified [OF h1 h2 h3v h4 h5 h6, of 0]
  have b: "polyfillCpSync (Suc 0) (posix []) ''/src/link.txt'' ''/dest/link.txt''
        (Some ?verbatim) tree_with_link
     = Some (Inr (), set_node ?s1 [''dest'', ''link.txt''] (Some (ILink ''target.txt'')))"
    by (auto simp: tv yv)
  have g1: "lstatSync (posix []) ''/src/here'' tree_with_self_link
              = Inr \<lparr> st_type = S_IFLNK, st_size = 1 \<rparr>"
    by code_simp
  have g2: "isSymbolicLink \<lparr> st_type = S_IFLNK, st_size = 1 \<rparr>"
    by (simp add: isSymbolicLink_def)
  have g4: "(if path_dirname (posix []) ''/src/there'' \<noteq> []
               \<and> \<not> existsSync (posix []) (path_dirname (posix []) ''/src/there'') tree_with_self_link
             then mkdirpSync (posix []) (path_dirname (posix []) ''/src/there'') tree_with_self_link
             else (None, tree_with_self_link)) = (None, tree_with_self_link)"
    by code_simp
  have g5: "readlinkSync (posix []) ''/src/here'' tree_with_self_link = Inr ''.''"
    by code_simp
  have g6: "(if existsSync (posix []) ''/src/there'' tree_with_self_link
             then unlinkSync (posix []) ''/src/there'' tree_with_self_link
             else (None, tree_with_self_link)) = (None, tree_with_self_link)"
    by code_simp
  have rel: "path_relative (posix []) (path_dirname (posix []) ''/src/there'')
               (spec_absolute_target (posix []) ''.'' ''/src/here'') = []"
    by code_simp
  have td: "spec_link_target (posix []) False ''.'' ''/src/here'' ''/src/there'' = ''.''"
    using rel by (simp add: spec_link_target_def)
  have yd: "symlinkSync (posix []) ''.'' ''/src/there'' hint tree_with_self_link
             = (None, set_node tree_with_self_link [''src'', ''there''] (Some (ILink ''.'')))"
    for hint
    by (cases hint; code_simp)
  from link_target_as_specified [OF g1 g2 h3 g4 g5 g6, of 0]
  have c: "polyfillCpSync (Suc 0) (posix []) ''/src/here'' ''/src/there'' None tree_with_self_link
     = Some (Inr (), set_node tree_with_self_link [''src'', ''there''] (Some (ILink ''.'')))"
    by (auto simp: td yd)
  from a b c show ?thesis by simp
qed

text \<open>
  C2. A source that \<open>lstat\<close> reports as a directory, copied without \<open>recursive\<close> (no
  options, the field absent, or the field \<open>false\<close>), fails with the error of code
  \<open>EISDIR\<close> whose message quotes the source path, and the file system is as it was.
\<close>

theorem directory_without_recursive_rejected:
  assumes "lstatSync env src s = Inr st"
    and "isDirectory st"
    and "options = None \<or> (\<exists>opts. options = Some opts \<and> recursive opts \<noteq> Some True)"
  shows "polyfillCpSync (Suc n) env src dest options s = Some (Inl (EISDIR_error src), s)
         \<and> code (EISDIR_error src) = Some ''EISDIR''
         \<and> message (EISDIR_error src)
             = ''EISDIR: illegal operation on a directory, read '' @ [CHR 0x27] @ src @ [CHR 0x27]"
proof -
  have nr: "not_recursive options"
    using assms(3) by (auto simp: not_recursive_def split: option.splits)
  have k: "\<not> isSymbolicLink st" "\<not> isFile st"
    using assms(2) by (simp_all add: isDirectory_def isSymbolicLink_def isFile_def)
  show ?thesis using assms(1,2) nr k by (simp add: EISDIR_error_def)
qed

theorem directory_without_recursive_rejected_witness:
  "lstatSync (posix []) ''/src'' tree_with_link = Inr \<lparr> st_type = S_IFDIR, st_size = 0 \<rparr>
   \<and> polyfillCpSync (Suc 0) (posix []) ''/src'' ''/dest'' None tree_with_link
       = Some (Inl (EISDIR_error ''/src''), tree_with_link)
   \<and> code (EISDIR_error ''/src'') = Some ''EISDIR''"
proof -
  have h1: "lstatSync (posix []) ''/src'' tree_with_link = Inr \<lparr> st_type = S_IFDIR, st_size = 0 \<rparr>"
    by code_simp
  have h2: "isDirectory \<lparr> st_type = S_IFDIR, st_size = 0 \<rparr>"
    by (simp add: isDirectory_def)
  have h3: "(None :: CpSyncOptions option) = None
            \<or> (\<exists>opts. (None :: CpSyncOptions option) = Some opts \<and> recursive opts \<noteq> Some True)"
    by simp
  from directory_without_recursive_rejected [OF h1 h2 h3, of 0 "''/dest''"] h1
  show ?thesis by simp
qed

text \<open>
  C3. A link copied with the option field \<open>dereference\<close> set to \<open>true\<close>: the link is
  resolved with \<open>realpath\<close> and the real path is classified with \<open>stat\<close>. A directory is
  copied by the recursive call on the real path and the same \<open>dest\<close>. Anything else is
  copied by creating the parent of \<open>dest\<close> with \<open>mkdirp\<close> when \<open>existsSync\<close> does not
  find it, and then copying the bytes of the real path to \<open>dest\<close>. No link is read,
  removed or created anywhere in the run: replacing \<open>readlinkSync\<close>, \<open>unlinkSync\<close> and
  \<open>symlinkSync\<close> by any functions leaves the run as it is, and so does any other value
  of \<open>verbatimSymlinks\<close>.
\<close>

theorem dereference_resolves_and_never_links:
  assumes "lstatSync env src s = Inr st"
    and "isSymbolicLink st"
    and "options = Some opts"
    and "dereference opts = Some True"
  shows "polyfillCpSync (Suc n) env src dest options s =
           (case realpathSync env src s of
              Inl e \<Rightarrow> Some (Inl e, s)
            | Inr realPath \<Rightarrow>
               (case statSync env realPath s of
                  Inl e \<Rightarrow> Some (Inl e, s)
                | Inr realStat \<Rightarrow>
                   if isDirectory realStat then polyfillCpSync n env realPath dest options s
                   else
                     Some (case (if path_dirname env dest \<noteq> []
                                    \<and> \<not> existsSync env (path_dirname env dest) s
                                 then mkdirpSync env (path_dirname env dest) s
                                 else (None, s)) of
                             (Some e, s1) \<Rightarrow> (Inl e, s1)
                           | (None, s1) \<Rightarrow>
                              (case copyFileSync env realPath dest s1 of
                                 (Some e, s2) \<Rightarrow> (Inl e, s2)
                               | (None, s2) \<Rightarrow> (Inr (), s2)))))
         \<and> polyfillCpSync (Suc n)
              (env\<lparr>readlinkSync := rl, unlinkSync := ul, symlinkSync := sl\<rparr>) src dest options s
             = polyfillCpSync (Suc n) env src dest options s
         \<and> polyfillCpSync (Suc n) env src dest (Some (opts\<lparr>verbatimSymlinks := v\<rparr>)) s
             = polyfillCpSync (Suc n) env src dest options s"
proof (intro conjI)
  have d: "opt_dereference options"
    using assms(3,4) by (simp add: opt_dereference_def)
  have c: "copyFileInto env realPath dest s =
             (case (if path_dirname env dest \<noteq> []
                      \<and> \<not> existsSync env (path_dirname env dest) s
                    then mkdirpSync env (path_dirname env dest) s
                    else (None, s)) of
                (Some e, s1) \<Rightarrow> (Inl e, s1)
              | (None, s1) \<Rightarrow>
                 (case copyFileSync env realPath dest s1 of
                    (Some e, s2) \<Rightarrow> (Inl e, s2)
                  | (None, s2) \<Rightarrow> (Inr (), s2)))" for realPath
    by (simp add: copyFileInto_def ensureParentDir_def completion_def Let_def
             split: prod.splits option.splits)
  show "polyfillCpSync (Suc n) env src dest options s =
           (case realpathSync env src s of
              Inl e \<Rightarrow> Some (Inl e, s)
            | Inr realPath \<Rightarrow>
               (case statSync env realPath s of
                  Inl e \<Rightarrow> Some (Inl e, s)
                | Inr realStat \<Rightarrow>
                   if isDirectory realStat then polyfillCpSync n env realPath dest options s
                   else
                     Some (case (if path_dirname env dest \<noteq> []
                                    \<and> \<not> existsSync env (path_dirname env dest) s
                                 then mkdirpSync env (path_dirname env dest) s
                                 else (None, s)) of
                             (Some e, s1) \<Rightarrow> (Inl e, s1)
                           | (None, s1) \<Rightarrow>
                              (case copyFileSync env realPath dest s1 of
                                 (Some e, s2) \<Rightarrow> (Inl e, s2)
                               | (None, s2) \<Rightarrow> (Inr (), s2)))))"
    using assms(1,2) d by (simp add: c split: sum.splits)
  let ?env' = "env\<lparr>readlinkSync := rl, unlinkSync := ul, symlinkSync := sl\<rparr>"
  have cf: "copyFileInto ?env' = copyFileInto env"
    by (rule copyFileInto_cong) simp_all
  show "polyfillCpSync (Suc n) ?env' src dest options s = polyfillCpSync (Suc n) env src dest options s"
    by (rule polyfillCpSync_env_cong) (simp_all add: cf d)
  have d': "opt_dereference (Some (opts\<lparr>verbatimSymlinks := v\<rparr>))"
    using assms(4) by (simp add: opt_dereference_def)
  have r: "not_recursive (Some (opts\<lparr>verbatimSymlinks := v\<rparr>)) = not_recursive options"
    using assms(3) by (simp add: not_recursive_def)
  show "polyfillCpSync (Suc n) env src dest (Some (opts\<lparr>verbatimSymlinks := v\<rparr>)) s
          = polyfillCpSync (Suc n) env src dest options s"
    by (rule polyfillCpSync_options_cong [OF d d' r])
qed

theorem dereference_resolves_and_never_links_witness:
  "polyfillCpSync (Suc 2) (posix []) ''/src/linkdir'' ''/dest/linkdir'' recursive_dereference
        tree_with_link
       = polyfillCpSync 2 (posix []) ''/src/realdir'' ''/dest/linkdir'' recursive_dereference
           tree_with_link
   \<and> polyfillCpSync (Suc 2) (posix_without_links) ''/src/linkdir'' ''/dest/linkdir''
        recursive_dereference tree_with_link
       = Some (Inr (),
               set_node tree_with_link [''dest'']
                 (Some (IDir [(''linkdir'', IDir [(''file.txt'', IFile ''file content'')])])))
   \<and> polyfillCpSync (Suc 0) (posix []) ''/src/link.txt'' ''/dest/link.txt'' recursive_dereference
        tree_with_link
       = Some (Inr (),
               set_node tree_with_link [''dest'']
                 (Some (IDir [(''link.txt'', IFile ''target content'')])))"
proof -
  let ?opts = "\<lparr> recursive = Some True, verbatimSymlinks = None, dereference = Some True \<rparr>"
  have o: "recursive_dereference = Some ?opts"
    by (simp add: recursive_dereference_def)
  have od: "dereference ?opts = Some True"
    by simp
  have h1: "lstatSync (posix []) ''/src/linkdir'' tree_with_link
              = Inr \<lparr> st_type = S_IFLNK, st_size = 7 \<rparr>"
    by code_simp
  have h2: "isSymbolicLink \<lparr> st_type = S_IFLNK, st_size = 7 \<rparr>"
    by (simp add: isSymbolicLink_def)
  have rp: "realpathSync (posix []) ''/src/linkdir'' tree_with_link = Inr ''/src/realdir''"
    by code_simp
  have st: "statSync (posix []) ''/src/realdir'' tree_with_link
              = Inr \<lparr> st_type = S_IFDIR, st_size = 0 \<rparr>"
    by code_simp
  have r: "polyfillCpSync (Suc 2) (posix []) ''/src/linkdir'' ''/dest/linkdir''
             recursive_dereference tree_with_link
           = Some (Inr (),
               set_node tree_with_link [''dest'']
                 (Some (IDir [(''linkdir'', IDir [(''file.txt'', IFile ''file content'')])])))"
    by code_simp
  note t = dereference_resolves_and_never_links [OF h1 h2 o od,
      where n = 2 and dest = "''/dest/linkdir''"
        and rl = "\<lambda>p s. Inl (sys_error ''EIO'' ''readlink'' p)"
        and ul = "\<lambda>p s. (Some (sys_error ''EIO'' ''unlink'' p), s)"
        and sl = "\<lambda>t p ty s. (Some (sys_error ''EIO'' ''symlink'' p), s)"]
  from t [THEN conjunct1] rp st
  have a: "polyfillCpSync (Suc 2) (posix []) ''/src/linkdir'' ''/dest/linkdir'' recursive_dereference
             tree_with_link
           = polyfillCpSync 2 (posix []) ''/src/realdir'' ''/dest/linkdir'' recursive_dereference
               tree_with_link"
    by (simp add: isDirectory_def)
  from t [THEN conjunct2, THEN conjunct1] r
  have b: "polyfillCpSync (Suc 2) (posix_without_links) ''/src/linkdir'' ''/dest/linkdir''
             recursive_dereference tree_with_link
           = Some (Inr (),
               set_node tree_with_link [''dest'']
                 (Some (IDir [(''linkdir'', IDir [(''file.txt'', IFile ''file content'')])])))"
    by (simp add: posix_without_links_def)
  have f1: "lstatSync (posix []) ''/src/link.txt'' tree_with_link
              = Inr \<lparr> st_type = S_IFLNK, st_size = 10 \<rparr>"
    by code_simp
  have f2: "isSymbolicLink \<lparr> st_type = S_IFLNK, st_size = 10 \<rparr>"
    by (simp add: isSymbolicLink_def)
  have frp: "realpathSync (posix []) ''/src/link.txt'' tree_with_link = Inr ''/src/target.txt''"
    by code_simp
  have fst: "statSync (posix []) ''/src/target.txt'' tree_with_link
              = Inr \<lparr> st_type = S_IFREG, st_size = 14 \<rparr>"
    by code_simp
  have fcopy:
    "(case (if path_dirname (posix []) ''/dest/link.txt'' \<noteq> []
               \<and> \<not> existsSync (posix []) (path_dirname (posix []) ''/dest/link.txt'') tree_with_link
            then mkdirpSync (posix []) (path_dirname (posix []) ''/dest/link.txt'') tree_with_link
            else (None, tree_with_link)) of
        (Some e, s1) \<Rightarrow> (Inl e, s1)
      | (None, s1) \<Rightarrow>
         (case copyFileSync (posix []) ''/src/target.txt'' ''/dest/link.txt'' s1 of
            (Some e, s2) \<Rightarrow> (Inl e, s2)
          | (None, s2) \<Rightarrow> (Inr (), s2)))
     = (Inr (),
        set_node tree_with_link [''dest'']
          (Some (IDir [(''link.txt'', IFile ''target content'')])))"
    by code_simp
  from dereference_resolves_and_never_links [OF f1 f2 o od,
      where n = 0 and dest = "''/dest/link.txt''", THEN conjunct1] frp fst fcopy
  have c: "polyfillCpSync (Suc 0) (posix []) ''/src/link.txt'' ''/dest/link.txt''
             recursive_dereference tree_with_link
           = Some (Inr (),
               set_node tree_with_link [''dest'']
                 (Some (IDir [(''link.txt'', IFile ''target content'')])))"
    by (simp add: isDirectory_def)
  from a b c show ?thesis by simp
qed

text \<open>
  C4, as amended. On the path that copies a link as a link, when \<open>existsSync\<close> reports
  an entry at \<open>dest\<close>, \<open>unlinkSync dest\<close> runs before the link is created: if it throws
  (as it does on a directory) the copy fails with that exception, and if it returns the
  link is created in the state it leaves.
\<close>

theorem occupied_dest_unlinked_before_link:
  assumes "lstatSync env src s = Inr st"
    and "isSymbolicLink st"
    and "\<not> opt_dereference options"
    and "ensureParentDir env dest s = (None, s1)"
    and "readlinkSync env src s1 = Inr rawTarget"
    and "existsSync env dest s1"
  shows "(\<forall>e s2. unlinkSync env dest s1 = (Some e, s2) \<longrightarrow>
            polyfillCpSync (Suc n) env src dest options s = Some (Inl e, s2))
       \<and> (\<forall>s2. unlinkSync env dest s1 = (None, s2) \<longrightarrow>
            (\<exists>target hint. polyfillCpSync (Suc n) env src dest options s =
               Some (completion (symlinkSync env target dest hint s2))))"
proof (intro conjI allI impI)
  fix e s2
  assume "unlinkSync env dest s1 = (Some e, s2)"
  then show "polyfillCpSync (Suc n) env src dest options s = Some (Inl e, s2)"
    using assms by (simp add: copySymlink_def removeExisting_def Let_def)
next
  fix s2
  assume u: "unlinkSync env dest s1 = (None, s2)"
  obtain hint where h: "getSymlinkType env rawTarget src s2 = Inr hint"
    using getSymlinkType_never_throws [of env rawTarget src s2] by auto
  have r: "removeExisting env dest s1 = (None, s2)"
    using u assms(6) by (simp add: removeExisting_def)
  show "\<exists>target hint. polyfillCpSync (Suc n) env src dest options s =
               Some (completion (symlinkSync env target dest hint s2))"
    using polyfillCpSync_symlink [OF assms(1,2,3)] copySymlink_steps [OF assms(4,5) r h]
    by auto
qed

theorem occupied_dest_unlinked_before_link_witness:
  "existsSync (posix []) ''/src/realdir/file.txt'' tree_with_link
   \<and> unlinkSync (posix []) ''/src/realdir/file.txt'' tree_with_link
       = (None, set_node tree_with_link [''src'', ''realdir'', ''file.txt''] None)
   \<and> (\<exists>target hint.
         polyfillCpSync (Suc 0) (posix []) ''/src/link.txt'' ''/src/realdir/file.txt'' None
           tree_with_link
         = Some (completion
                  (symlinkSync (posix []) target ''/src/realdir/file.txt'' hint
                     (set_node tree_with_link [''src'', ''realdir'', ''file.txt''] None))))
   \<and> polyfillCpSync (Suc 0) (posix []) ''/src/link.txt'' ''/src/realdir/file.txt'' None
        tree_with_link
       = Some (Inr (),
               set_node tree_with_link [''src'', ''realdir'', ''file.txt'']
                 (Some (ILink ''../target.txt'')))"
proof -
  have h1: "lstatSync (posix []) ''/src/link.txt'' tree_with_link
              = Inr \<lparr> st_type = S_IFLNK, st_size = 10 \<rparr>"
    by code_simp
  have h2: "isSymbolicLink \<lparr> st_type = S_IFLNK, st_size = 10 \<rparr>"
    by (simp add: isSymbolicLink_def)
  have h3: "\<not> opt_dereference None"
    by (simp add: opt_dereference_def)
  have h4: "ensureParentDir (posix []) ''/src/realdir/file.txt'' tree_with_link
              = (None, tree_with_link)"
    by code_simp
  have h5: "readlinkSync (posix []) ''/src/link.txt'' tree_with_link = Inr ''target.txt''"
    by code_simp
  have h6: "existsSync (posix []) ''/src/realdir/file.txt'' tree_with_link"
    by code_simp
  have u: "unlinkSync (posix []) ''/src/realdir/file.txt'' tree_with_link
             = (None, set_node tree_with_link [''src'', ''realdir'', ''file.txt''] None)"
    by code_simp
  have r: "polyfillCpSync (Suc 0) (posix []) ''/src/link.txt'' ''/src/realdir/file.txt'' None
             tree_with_link
           = Some (Inr (),
               set_node tree_with_link [''src'', ''realdir'', ''file.txt'']
                 (Some (ILink ''../target.txt'')))"
    by code_simp
  from occupied_dest_unlinked_before_link [OF h1 h2 h3 h4 h5 h6, of 0] h6 u r
  show ?thesis by blast
qed

text \<open>
  C4 as stated fails: with a directory at \<open>dest\<close>, \<open>existsSync\<close> is true, \<open>unlinkSync\<close>
  refuses the directory, and the copy fails with the directory still in place.
\<close>

theorem directory_at_dest_counterexample:
  "polyfillCpSync (Suc 0) (posix []) ''/src/link.txt'' ''/src/realdir'' None tree_with_link
     = Some (Inl (sys_error ''EISDIR'' ''unlink'' ''/src/realdir''), tree_with_link)"
  by code_simp

text \<open>
  C5, as amended. A source on which \<open>lstat\<close> throws (a path that does not exist): the
  copy fails with the exception \<open>lstat\<close> threw, as it is, and the file system is as it
  was. The exception is \<open>ENOENT\<close> when \<open>lstat\<close> reports the path missing.
\<close>

theorem missing_source_fails_unchanged:
  assumes "lstatSync env src s = Inl e"
  shows "polyfillCpSync (Suc n) env src dest options s = Some (Inl e, s)"
  using assms by simp

theorem missing_source_fails_unchanged_witness:
  "lstatSync (posix []) ''/src/nonexistent.txt'' tree_with_link
     = Inl (sys_error ''ENOENT'' ''lstat'' ''/src/nonexistent.txt'')
   \<and> polyfillCpSync (Suc 0) (posix []) ''/src/nonexistent.txt'' ''/dest.txt'' None tree_with_link
     = Some (Inl (sys_error ''ENOENT'' ''lstat'' ''/src/nonexistent.txt''), tree_with_link)
   \<and> code (sys_error ''ENOENT'' ''lstat'' ''/src/nonexistent.txt'') = Some ''ENOENT''"
proof -
  have h1: "lstatSync (posix []) ''/src/nonexistent.txt'' tree_with_link
              = Inl (sys_error ''ENOENT'' ''lstat'' ''/src/nonexistent.txt'')"
    by code_simp
  have h2: "code (sys_error ''ENOENT'' ''lstat'' ''/src/nonexistent.txt'') = Some ''ENOENT''"
    by (simp add: sys_error_def)
  from missing_source_fails_unchanged [OF h1, of 0 "''/dest.txt''" None] h1 h2
  show ?thesis by simp
qed

text \<open>
  C5 as stated fails: a source path that runs through a regular file does not exist,
  and the copy fails with \<open>ENOTDIR\<close>, not with \<open>ENOENT\<close>.
\<close>

theorem missing_source_under_file_counterexample:
  "\<not> existsSync (posix []) ''/src/target.txt/x'' tree_with_link
   \<and> polyfillCpSync (Suc 0) (posix []) ''/src/target.txt/x'' ''/dest.txt'' None tree_with_link
       = Some (Inl (sys_error ''ENOTDIR'' ''lstat'' ''/src/target.txt/x''), tree_with_link)
   \<and> code (sys_error ''ENOTDIR'' ''lstat'' ''/src/target.txt/x'') = Some ''ENOTDIR''
   \<and> code (sys_error ''ENOTDIR'' ''lstat'' ''/src/target.txt/x'') \<noteq> Some ''ENOENT''"
  by code_simp



text \<open>
  C7. \<open>getSymlinkType\<close> always returns, and never \<open>junction\<close>. Off \<open>win32\<close> it returns
  \<open>file\<close> whatever the file system holds. On \<open>win32\<close> it stats the raw target, resolved
  against the directory of the link source when it is not absolute, and returns \<open>dir\<close>
  for a directory and \<open>file\<close> otherwise, a failing \<open>stat\<close> included. The function reads
  the file system state and returns no new one.
\<close>

theorem getSymlinkType_total:
  "(\<exists>t. getSymlinkType env targetPath srcPath s = Inr t \<and> t \<noteq> LinkJunction)
   \<and> (platform env \<noteq> ''win32'' \<longrightarrow> getSymlinkType env targetPath srcPath s = Inr LinkFile)
   \<and> (platform env = ''win32'' \<longrightarrow>
        getSymlinkType env targetPath srcPath s =
          (case statSync env
                  (if isAbsolute env targetPath then targetPath
                   else path_resolve env (path_dirname env srcPath) targetPath) s of
             Inr st \<Rightarrow> if isDirectory st then Inr LinkDir else Inr LinkFile
           | Inl e \<Rightarrow> Inr LinkFile))"
  by (auto simp: getSymlinkType_def Let_def split: sum.splits)

theorem getSymlinkType_total_witness:
  "getSymlinkType win32_view ''realdir'' ''/src/linkdir'' tree_with_link = Inr LinkDir
   \<and> getSymlinkType win32_view ''missing'' ''/src/stale'' tree_with_stale_link = Inr LinkFile
   \<and> getSymlinkType (posix []) ''realdir'' ''/src/linkdir'' tree_with_link = Inr LinkFile"
proof -
  have w: "platform win32_view = ''win32''"
    by (simp add: win32_view_def)
  have p: "platform (posix []) \<noteq> ''win32''"
    by (simp add: posix_def)
  have s1: "statSync win32_view
              (if isAbsolute win32_view ''realdir'' then ''realdir''
               else path_resolve win32_view (path_dirname win32_view ''/src/linkdir'') ''realdir'')
              tree_with_link
            = Inr \<lparr> st_type = S_IFDIR, st_size = 0 \<rparr>"
    by code_simp
  have s2: "statSync win32_view
              (if isAbsolute win32_view ''missing'' then ''missing''
               else path_resolve win32_view (path_dirname win32_view ''/src/stale'') ''missing'')
              tree_with_stale_link
            = Inl (sys_error ''ENOENT'' ''stat'' ''/src/missing'')"
    by code_simp
  from getSymlinkType_total [of win32_view "''realdir''" "''/src/linkdir''" tree_with_link] w s1
  have a: "getSymlinkType win32_view ''realdir'' ''/src/linkdir'' tree_with_link = Inr LinkDir"
    by (simp add: isDirectory_def)
  from getSymlinkType_total [of win32_view "''missing''" "''/src/stale''" tree_with_stale_link] w s2
  have b: "getSymlinkType win32_view ''missing'' ''/src/stale'' tree_with_stale_link = Inr LinkFile"
    by simp
  from getSymlinkType_total [of "posix []" "''realdir''" "''/src/linkdir''" tree_with_link] p
  have c: "getSymlinkType (posix []) ''realdir'' ''/src/linkdir'' tree_with_link = Inr LinkFile"
    by simp
  from a b c show ?thesis by simp
qed

text \<open>
  C8 fails on the code. A source directory holding a link whose target does not exist
  is copied once with success; the same call again fails with \<open>EEXIST\<close>: the link made
  by the first run dangles too, \<open>existsSync\<close> follows it and reports nothing at \<open>dest\<close>,
  so it is not removed and \<open>symlinkSync\<close> meets it.
\<close>

theorem retry_with_stale_link_fails:
  "polyfillCpSync 2 (posix []) ''/src'' ''/dest'' recursive_only tree_with_stale_link
     = Some (Inr (),
             set_node tree_with_stale_link [''dest'']
               (Some (IDir [(''stale'', ILink ''../src/missing'')])))
   \<and> polyfillCpSync 2 (posix []) ''/src'' ''/dest'' recursive_only
       (set_node tree_with_stale_link [''dest'']
          (Some (IDir [(''stale'', ILink ''../src/missing'')])))
     = Some (Inl (sys_error ''EEXIST'' ''symlink'' ''/dest/stale''),
             set_node tree_with_stale_link [''dest'']
               (Some (IDir [(''stale'', ILink ''../src/missing'')])))"
  by code_simp

text \<open>
  C9. The options reach every nested call as they are, so when \<open>recursive\<close> is \<open>true\<close>
  the \<open>EISDIR\<close> error of lines 104-106 is never built, at any depth: provided no primitive
  of the runtime throws that very error, a copy that fails does not fail with it.
\<close>

theorem recursive_copy_never_raises_EISDIR:
  assumes "recursive opts = Some True"
    and "raises_only env (\<lambda>e. \<forall>p. e \<noteq> EISDIR_error p)"
    and "polyfillCpSync n env src dest (Some opts) s = Some (Inl e, s')"
  shows "e \<noteq> EISDIR_error p"
proof -
  have "\<not> not_recursive (Some opts)"
    using assms(1) by (simp add: not_recursive_def)
  from polyfillCpSync_raises [OF assms(2) this assms(3)] show ?thesis by simp
qed

theorem recursive_copy_never_raises_EISDIR_witness:
  "polyfillCpSync 3 (posix []) ''/src'' ''/dest''
      (Some \<lparr> recursive = Some True, verbatimSymlinks = None, dereference = Some True \<rparr>)
      tree_with_stale_link
     = Some (Inl (sys_error ''ENOENT'' ''realpath'' ''/src/stale''),
             set_node tree_with_stale_link [''dest''] (Some (IDir [])))
   \<and> sys_error ''ENOENT'' ''realpath'' ''/src/stale'' \<noteq> EISDIR_error ''/src/stale''"
proof -
  have h1: "recursive \<lparr> recursive = Some True, verbatimSymlinks = None, dereference = Some True \<rparr>
              = Some True"
    by simp
  have h3: "polyfillCpSync 3 (posix []) ''/src'' ''/dest''
      (Some \<lparr> recursive = Some True, verbatimSymlinks = None, dereference = Some True \<rparr>)
      tree_with_stale_link
     = Some (Inl (sys_error ''ENOENT'' ''realpath'' ''/src/stale''),
             set_node tree_with_stale_link [''dest''] (Some (IDir [])))"
    by code_simp
  from recursive_copy_never_raises_EISDIR
         [OF h1 posix_never_raises_EISDIR_error h3, of "''/src/stale''"] h3
  show ?thesis by simp
qed

text \<open>
  C10. A source that \<open>lstat\<close> reports as neither a link, nor a regular file, nor a
  directory (a FIFO, a socket, a device): the copy returns normally and the file system
  is as it was.
\<close>

theorem other_kinds_skipped:
  assumes "lstatSync env src s = Inr st"
    and "\<not> isSymbolicLink st" and "\<not> isFile st" and "\<not> isDirectory st"
  shows "polyfillCpSync (Suc n) env src dest options s = Some (Inr (), s)"
  using assms by simp

theorem other_kinds_skipped_witness:
  "lstatSync (posix []) ''/src/pipe'' tree_with_link = Inr \<lparr> st_type = S_IFIFO, st_size = 0 \<rparr>
   \<and> polyfillCpSync (Suc 0) (posix []) ''/src/pipe'' ''/dest/pipe'' recursive_only tree_with_link
       = Some (Inr (), tree_with_link)"
proof -
  have h1: "lstatSync (posix []) ''/src/pipe'' tree_with_link
              = Inr \<lparr> st_type = S_IFIFO, st_size = 0 \<rparr>"
    by code_simp
  have h2: "\<not> isSymbolicLink \<lparr> st_type = S_IFIFO, st_size = 0 \<rparr>"
    and h3: "\<not> isFile \<lparr> st_type = S_IFIFO, st_size = 0 \<rparr>"
    and h4: "\<not> isDirectory \<lparr> st_type = S_IFIFO, st_size = 0 \<rparr>"
    by (simp_all add: isSymbolicLink_def isFile_def isDirectory_def)
  from other_kinds_skipped [OF h1 h2 h3 h4, of 0 "''/dest/pipe''" recursive_only] h1
  show ?thesis by simp
qed

end
